theory Spec2Isabelle
  imports Complex_Main "HOL-Library.Multiset"
begin

section \<open>The chat request (main.py, ChatRequest)\<close>

text \<open>
  Python exceptions are values. \<open>ImportError\<close> is kept apart from every other
  \<open>Exception\<close> because the chat endpoint handles it in a clause of its own;
  \<open>ValueError\<close> is what the request validator raises, \<open>AttributeError\<close> what
  reading an attribute that an object does not have raises, and
  \<open>GraphRecursionError\<close> what the graph library raises when a run has used up its
  step limit. All are subclasses of \<open>Exception\<close>.
\<close>

datatype exn =
  ImportError string | ValueError string | AttributeError string
  | GraphRecursionError string | OtherException string

fun exn_str :: "exn \<Rightarrow> string" where
  "exn_str (ImportError s) = s"
| "exn_str (ValueError s) = s"
| "exn_str (AttributeError s) = s"
| "exn_str (GraphRecursionError s) = s"
| "exn_str (OtherException s) = s"

record ChatMessage =
  cm_role :: string
  cm_content :: string

text \<open>
  The three fields are \<open>Optional\<close> with default \<open>None\<close>. The class has no
  other field.
\<close>

record ChatRequest =
  message :: "string option"
  messages :: "string list option"
  history :: "ChatMessage list option"

text \<open>Python truthiness of an optional string or list: \<open>None\<close> and the empty value are false.\<close>

fun truthy :: "'a list option \<Rightarrow> bool" where
  "truthy None = False"
| "truthy (Some xs) = (xs \<noteq> [])"

definition ensure_message :: "ChatRequest \<Rightarrow> exn + ChatRequest" where
  "ensure_message self =
     (if \<not> truthy (message self) \<and> \<not> truthy (messages self)
      then Inl (ValueError ''Either 'message' or 'messages' must be provided.'')
      else Inr self)"



section \<open>Meal records and the next id (main.py, upload_image)\<close>

datatype analysis = Analysis string | AnalysisError string

text \<open>
  A stored record as \<open>json.load\<close> gives it back. The key \<open>id\<close> may be
  missing in a record of the file (\<open>meal.get("id", 0)\<close> reads it), so it is optional.
\<close>

record meal =
  meal_id :: "int option"
  meal_name :: string
  meal_description :: string
  image_path :: string
  upload_date :: string
  meal_user_id :: string
  analysis_response :: analysis

text \<open>\<open>meal.get("id", 0)\<close>\<close>

definition get_id :: "meal \<Rightarrow> int" where
  "get_id m = (case meal_id m of None \<Rightarrow> 0 | Some i \<Rightarrow> i)"

text \<open>\<open>max(xs, default=d)\<close> on a list of integers.\<close>

fun max_default :: "int list \<Rightarrow> int \<Rightarrow> int" where
  "max_default [] d = d"
| "max_default (x # xs) d = fold max xs x"

definition new_id :: "meal list \<Rightarrow> int" where
  "new_id meals_data = max_default (map get_id meals_data) 0 + 1"

text \<open>A stored record with a given id, for concrete inputs.\<close>

definition rec_with_id :: "int option \<Rightarrow> meal" where
  "rec_with_id i = \<lparr>meal_id = i, meal_name = ''photo.jpg'', meal_description = ''lunch'',
     image_path = ''uploads/meals/m.jpg'', upload_date = ''2024-01-01'',
     meal_user_id = ''user_0'', analysis_response = Analysis ''ok''\<rparr>"

section \<open>The web-search tool (app/tools/websearch.py)\<close>



definition digit :: "nat \<Rightarrow> char" where
  "digit n = ''0123456789'' ! n"

text \<open>\<open>str(n)\<close> for a non-negative integer.\<close>

function str_nat :: "nat \<Rightarrow> string" where
  "str_nat n = (if n < 10 then [digit n] else str_nat (n div 10) @ [digit (n mod 10)])"
  by pat_completeness auto
termination
  by (relation "measure (\<lambda>n. n)") auto









section \<open>The upload endpoint (main.py, upload_image)\<close>

datatype http_error = HTTPException nat string

record UploadResponse =
  status :: string
  detail :: string
  document_path :: "string option"

record UploadFile =
  filename :: string
  contents :: string

text \<open>
  The files the endpoint touches: the temporary directory, the content directory
  \<open>uploads/meals\<close> (\<open>None\<close> while the directory does not exist; otherwise a map
  from path to bytes), and the record store \<open>app/tools/meals.json\<close>, which is absent,
  present but not loadable by \<open>json.load\<close>, or a list of records.
\<close>

datatype json_file = Absent | Unreadable exn | Meals "meal list"

record files =
  tmp_files :: "string \<rightharpoonup> string"
  uploads_dir :: "(string \<rightharpoonup> string) option"
  meals_json :: json_file

text \<open>
  What the endpoint does not decide itself is its environment: the name the temporary
  file gets, whether creating or writing it fails, what \<open>Image.verify\<close> says about the
  bytes, \<open>os.path.splitext\<close>, the two clock readings, whether \<open>shutil.move\<close> fails,
  the vision analysis (\<open>analyze_meal_image\<close>, which returns or raises), whether opening or
  dumping the record store fails, and \<open>get_user_id()\<close>.
\<close>

datatype tmp_outcome = TmpCreateFails exn | TmpWriteFails exn | TmpOk

datatype dump_outcome = OpenFails exn | DumpFails exn | DumpOk

record upload_env =
  mktemp :: "string \<Rightarrow> string"
  tmp_write :: tmp_outcome
  image_verify :: "string \<Rightarrow> exn option"
  tmp_remove_fails :: bool
  splitext_ext :: "string \<Rightarrow> string"
  strftime_now :: string
  isoformat_now :: string
  move_error :: "exn option"
  analyze_meal_image :: "string \<Rightarrow> string \<Rightarrow> exn + string"
  dump :: dump_outcome
  env_user_id :: string

text \<open>\<open>str.lower()\<close> on ASCII letters; other bytes stay.\<close>

definition lower_char :: "char \<Rightarrow> char" where
  "lower_char c =
     (let n = (of_char c :: nat) in if 65 \<le> n \<and> n \<le> 90 then char_of (n + 32) else c)"

definition lower :: "string \<Rightarrow> string" where
  "lower s = map lower_char s"

definition endswith :: "string \<Rightarrow> string \<Rightarrow> bool" where
  "endswith s suf = (length suf \<le> length s \<and> drop (length s - length suf) s = suf)"

definition allowed_extensions :: "string list" where
  "allowed_extensions = [''.png'', ''.jpg'', ''.jpeg'']"

text \<open>\<open>file.filename.lower().endswith(allowed_extensions)\<close>\<close>

definition has_allowed_extension :: "string \<Rightarrow> bool" where
  "has_allowed_extension name = list_ex (endswith (lower name)) allowed_extensions"

text \<open>\<open>str(i)\<close> for an integer.\<close>

definition str_int :: "int \<Rightarrow> string" where
  "str_int i = (if i < 0 then ''-'' @ str_nat (nat (- i)) else str_nat (nat i))"

definition makedirs :: "files \<Rightarrow> files" where
  "makedirs fs =
     (case uploads_dir fs of None \<Rightarrow> fs\<lparr>uploads_dir := Some Map.empty\<rparr> | Some d \<Rightarrow> fs)"

definition dir_files :: "files \<Rightarrow> (string \<rightharpoonup> string)" where
  "dir_files fs = (case uploads_dir fs of None \<Rightarrow> Map.empty | Some d \<Rightarrow> d)"

text \<open>
  The \<open>try\<close> block that stores the image and the record. The result is the exception
  the block raises, with the files as they are at that moment and the final path if it
  was already assigned, or the response.
\<close>

definition save_meal ::
  "upload_env \<Rightarrow> UploadFile \<Rightarrow> string \<Rightarrow> string \<Rightarrow> files
     \<Rightarrow> (exn \<times> string option + UploadResponse) \<times> files" where
  "save_meal env file description tmp_path fs =
     (case meals_json fs of
        Unreadable e \<Rightarrow> (Inl (e, None), fs)
      | _ \<Rightarrow>
        (let meals_data = (case meals_json fs of Meals ms \<Rightarrow> ms | _ \<Rightarrow> []);
             new_id = new_id meals_data;
             file_extension = splitext_ext env (filename file);
             new_filename = ''meals_'' @ str_int new_id @ ''_'' @ strftime_now env @ file_extension;
             final_image_path = ''uploads/meals/'' @ new_filename
         in case move_error env of
              Some e \<Rightarrow> (Inl (e, Some final_image_path), fs)
            | None \<Rightarrow>
              (let moved = fs\<lparr>tmp_files := (tmp_files fs)(tmp_path := None),
                              uploads_dir := Some ((dir_files fs)(final_image_path \<mapsto> contents file))\<rparr>;
                   question = (if description \<noteq> [] then description @ '' with this image''
                               else ''Analyze this meal image'');
                   analysis = (case analyze_meal_image env final_image_path question of
                                 Inr a \<Rightarrow> Analysis a
                               | Inl e \<Rightarrow> AnalysisError (exn_str e));
                   new_meals = \<lparr>meal_id = Some new_id, meal_name = filename file,
                                 meal_description = (if description \<noteq> [] then description
                                                     else ''No description provided''),
                                 image_path = final_image_path,
                                 upload_date = isoformat_now env,
                                 meal_user_id = env_user_id env,
                                 analysis_response = analysis\<rparr>
               in case dump env of
                    OpenFails e \<Rightarrow> (Inl (e, Some final_image_path), moved)
                  | DumpFails e \<Rightarrow>
                      (Inl (e, Some final_image_path), moved\<lparr>meals_json := Unreadable e\<rparr>)
                  | DumpOk \<Rightarrow>
                      (Inr \<lparr>status = ''success'',
                            detail = ''Meal image uploaded and analyzed successfully. ID: ''
                                     @ str_int new_id,
                            document_path = Some final_image_path\<rparr>,
                       moved\<lparr>meals_json := Meals (meals_data @ [new_meals])\<rparr>))))"

definition upload_image ::
  "upload_env \<Rightarrow> UploadFile \<Rightarrow> string \<Rightarrow> files \<Rightarrow> (http_error + UploadResponse) \<times> files" where
  "upload_image env file description fs =
     (if \<not> has_allowed_extension (filename file)
      then (Inl (HTTPException 400 ''Only PNG, JPG, and JPEG images are accepted.''), fs)
      else
        (let tmp_path = mktemp env (splitext_ext env (filename file)) in
         case tmp_write env of
           TmpCreateFails e \<Rightarrow>
             (Inl (HTTPException 500 (''Failed to save upload: '' @ exn_str e)), fs)
         | TmpWriteFails e \<Rightarrow>
             (Inl (HTTPException 500 (''Failed to save upload: '' @ exn_str e)),
              fs\<lparr>tmp_files := (tmp_files fs)(tmp_path \<mapsto> [])\<rparr>)
         | TmpOk \<Rightarrow>
             (let fs1 = fs\<lparr>tmp_files := (tmp_files fs)(tmp_path \<mapsto> contents file)\<rparr> in
              case image_verify env (contents file) of
                Some e \<Rightarrow>
                  (Inl (HTTPException 400 (''Invalid image file: '' @ exn_str e)),
                   if tmp_remove_fails env then fs1
                   else fs1\<lparr>tmp_files := (tmp_files fs1)(tmp_path := None)\<rparr>)
              | None \<Rightarrow>
                  (case save_meal env file description tmp_path (makedirs fs1) of
                     (Inr response, fs2) \<Rightarrow> (Inr response, fs2)
                   | (Inl (e, final), fs2) \<Rightarrow>
                       (Inl (HTTPException 500 (''Failed to save meal data: '' @ exn_str e)),
                        case final of
                          None \<Rightarrow> fs2
                        | Some final_image_path \<Rightarrow>
                            fs2\<lparr>uploads_dir :=
                                  Some ((dir_files fs2)(final_image_path := None))\<rparr>)))))"

text \<open>
  A concrete environment and file system for running the endpoint: three stored records
  with ids 3, 7, 2, an image check that accepts only the bytes \<open>JPEGDATA\<close>, and
  a vision analysis that raises.
\<close>

definition env0 :: upload_env where
  "env0 = \<lparr>mktemp = (\<lambda>suffix. ''/tmp/tmpabc'' @ suffix),
            tmp_write = TmpOk,
            image_verify = (\<lambda>bytes. if bytes = ''JPEGDATA'' then None
                                       else Some (OtherException ''cannot identify image file'')),
            tmp_remove_fails = False,
            splitext_ext = (\<lambda>name. drop (length name - 4) name),
            strftime_now = ''20240101_120000'',
            isoformat_now = ''2024-01-01T12:00:00'',
            move_error = None,
            analyze_meal_image = (\<lambda>path question. Inl (OtherException ''vision unavailable'')),
            dump = DumpOk,
            env_user_id = ''user_0''\<rparr>"

definition fs0 :: files where
  "fs0 = \<lparr>tmp_files = Map.empty, uploads_dir = None,
           meals_json = Meals [rec_with_id (Some 3), rec_with_id (Some 7), rec_with_id (Some 2)]\<rparr>"

section \<open>Messages and the message reducer (app/agent/workflow.py, AgentState)\<close>

datatype msg_type = System | Human | AI | Tool

record tool_call =
  tc_name :: string
  tc_args :: string
  tc_id :: string

text \<open>
  A message of the conversation. Only an \<open>AI\<close> message has the attribute
  \<open>tool_calls\<close>; only a \<open>Tool\<close> message has a \<open>tool_call_id\<close>. The id is
  \<open>None\<close> until the reducer assigns one.
\<close>

record message =
  msg_type :: msg_type
  content :: string
  tool_calls :: "tool_call list"
  tool_call_id :: "string option"
  msg_id :: "string option"


definition HumanMessage :: "string \<Rightarrow> message" where
  "HumanMessage c =
     \<lparr>msg_type = Human, content = c, tool_calls = [], tool_call_id = None, msg_id = None\<rparr>"

definition AIMessage :: "string \<Rightarrow> message" where
  "AIMessage c =
     \<lparr>msg_type = AI, content = c, tool_calls = [], tool_call_id = None, msg_id = None\<rparr>"


text \<open>
  \<open>AgentState\<close> has the one channel \<open>messages\<close>, annotated with the reducer
  \<open>add_messages\<close> of the graph library: whatever a node returns for \<open>messages\<close> is
  merged into the stored list by that reducer. The reducer first gives every message
  without an id a new random id (\<open>uuid4\<close>; here the \<open>n\<close>-th id drawn by the process
  is \<open>uuid n\<close>, and the counter is threaded through), then goes through the incoming
  messages in order: a message whose id is already in the list replaces the stored message
  at that position, any other message is appended. Removal messages are not modelled: the
  program never builds one.
\<close>

fun assign_ids :: "(nat \<Rightarrow> string) \<Rightarrow> nat \<Rightarrow> message list \<Rightarrow> message list \<times> nat" where
  "assign_ids uuid n [] = ([], n)"
| "assign_ids uuid n (m # ms) =
     (case msg_id m of
        None \<Rightarrow> (let (ms', n') = assign_ids uuid (Suc n) ms
                 in (m\<lparr>msg_id := Some (uuid n)\<rparr> # ms', n'))
      | Some i \<Rightarrow> (let (ms', n') = assign_ids uuid n ms in (m # ms', n')))"

text \<open>
  The index the reducer's dictionary \<open>{m.id: i for i, m in enumerate(merged)}\<close> holds
  for an id: the last position with that id.
\<close>

fun index_of_id :: "string option \<Rightarrow> message list \<Rightarrow> nat option" where
  "index_of_id k [] = None"
| "index_of_id k (m # ms) =
     (case index_of_id k ms of
        Some i \<Rightarrow> Some (Suc i)
      | None \<Rightarrow> if msg_id m = k then Some 0 else None)"

fun merge_messages :: "message list \<Rightarrow> message list \<Rightarrow> message list" where
  "merge_messages merged [] = merged"
| "merge_messages merged (m # ms) =
     (case index_of_id (msg_id m) merged of
        Some existing_idx \<Rightarrow> merge_messages (merged[existing_idx := m]) ms
      | None \<Rightarrow> merge_messages (merged @ [m]) ms)"

definition add_messages ::
  "(nat \<Rightarrow> string) \<Rightarrow> nat \<Rightarrow> message list \<Rightarrow> message list \<Rightarrow> message list \<times> nat" where
  "add_messages uuid n left right =
     (let (left', n1) = assign_ids uuid n left;
          (right', n2) = assign_ids uuid n1 right
      in (merge_messages left' right', n2))"

section \<open>The nodes and the compiled graph (app/agent/workflow.py, build_workflow)\<close>














section \<open>The chat endpoint (main.py, chat)\<close>











text \<open>
  A history as the checkpointer holds it: every message has an id and no id occurs twice.
  Every list the reducer returns from such a history is of this form.
\<close>

definition stored_ok :: "message list \<Rightarrow> bool" where
  "stored_ok st = ((\<forall>m\<in>set st. msg_id m \<noteq> None) \<and> distinct (map msg_id st))"

text \<open>The message as the reducer stores it, and the id counter after it.\<close>

definition with_id :: "(nat \<Rightarrow> string) \<Rightarrow> nat \<Rightarrow> message \<Rightarrow> message" where
  "with_id uuid n m = (case msg_id m of None \<Rightarrow> m\<lparr>msg_id := Some (uuid n)\<rparr> | Some i \<Rightarrow> m)"

definition next_counter :: "nat \<Rightarrow> message \<Rightarrow> nat" where
  "next_counter n m = (case msg_id m of None \<Rightarrow> Suc n | Some i \<Rightarrow> n)"

section \<open>Model stubs and concrete inputs\<close>




definition uuid_stub :: "nat \<Rightarrow> string" where
  "uuid_stub n = replicate (Suc n) CHR ''u''"


text \<open>
  A state of a run: the history is well formed and all its ids were drawn from the id
  supply before the counter.
\<close>

definition drawn_ids :: "(nat \<Rightarrow> string) \<Rightarrow> message list \<times> nat \<Rightarrow> bool" where
  "drawn_ids uuid s =
     (stored_ok (fst s) \<and> (\<forall>m\<in>set (fst s). \<exists>k<snd s. msg_id m = Some (uuid k)))"

text \<open>A stored user message and a stored final answer, with the first two ids of the supply.\<close>

definition hello0 :: message where
  "hello0 = (HumanMessage ''hello'')\<lparr>msg_id := Some (uuid_stub 0)\<rparr>"

definition answer1 :: message where
  "answer1 = (AIMessage ''An apple has about 95 kcal.'')\<lparr>msg_id := Some (uuid_stub 1)\<rparr>"









section \<open>Request validation\<close>

text \<open>
  C6. Validation succeeds exactly when \<open>message\<close> is a non-empty string or
  \<open>messages\<close> is a non-empty list, and then returns the request unchanged; it passes
  in particular when \<open>message\<close> is non-empty and \<open>messages\<close> is the empty list.
  When neither is supplied it raises the \<open>ValueError\<close> that rejects the request.
\<close>

theorem ensure_message_validation:
  "(truthy (message r) \<or> truthy (messages r) \<longrightarrow> ensure_message r = Inr r)
   \<and> (m \<noteq> [] \<longrightarrow> ensure_message (r\<lparr>message := Some m, messages := Some []\<rparr>)
          = Inr (r\<lparr>message := Some m, messages := Some []\<rparr>))
   \<and> (message r = None \<and> messages r = None \<longrightarrow>
          ensure_message r = Inl (ValueError ''Either 'message' or 'messages' must be provided.''))
   \<and> (\<not> truthy (message r) \<and> \<not> truthy (messages r) \<longrightarrow> (\<exists>e. ensure_message r = Inl e))"
  by (simp add: ensure_message_def)

theorem ensure_message_validation_witness:
  "ensure_message \<lparr>message = Some ''hello'', messages = Some [], history = None\<rparr>
     = Inr \<lparr>message = Some ''hello'', messages = Some [], history = None\<rparr>
   \<and> ensure_message \<lparr>message = None, messages = None, history = None\<rparr>
     = Inl (ValueError ''Either 'message' or 'messages' must be provided.'')"
  using ensure_message_validation
    [of "\<lparr>message = Some ''hello'', messages = Some [], history = None\<rparr>" "''hello''"]
    ensure_message_validation
    [of "\<lparr>message = None, messages = None, history = None\<rparr>" "''x''"]
  by simp

section \<open>The id of a new record\<close>

lemma max_default_Max:
  "xs \<noteq> [] \<Longrightarrow> max_default xs d = Max (set xs)"
proof (cases xs)
  case Nil
  assume "xs \<noteq> []"
  with Nil show ?thesis by simp
next
  case (Cons a list)
  show ?thesis
    unfolding Cons max_default.simps by (rule Max.set_eq_fold [symmetric])
qed

lemma new_id_Max:
  "meals_data \<noteq> [] \<Longrightarrow> new_id meals_data = Max (get_id ` set meals_data) + 1"
  by (simp add: new_id_def max_default_Max)

lemma get_id_image:
  "\<forall>m\<in>set meals_data. meal_id m \<noteq> None \<Longrightarrow>
   get_id ` set meals_data = {i. \<exists>m\<in>set meals_data. meal_id m = Some i}"
  by (force simp: get_id_def image_iff split: option.splits)

lemma upload_image_stores:
  assumes "has_allowed_extension (filename upload)" and "tmp_write env = TmpOk"
    and "image_verify env (contents upload) = None"
    and "meals_json fs = Meals meals_data \<or> meals_json fs = Absent \<and> meals_data = []"
    and "move_error env = None" and "dump env = DumpOk"
  shows "\<exists>new_meals path.
           meals_json (snd (upload_image env upload description fs))
             = Meals (meals_data @ [new_meals])
           \<and> meal_id new_meals = Some (new_id meals_data)
           \<and> fst (upload_image env upload description fs)
               = Inr \<lparr>status = ''success'',
                      detail = ''Meal image uploaded and analyzed successfully. ID: ''
                               @ str_int (new_id meals_data),
                      document_path = Some path\<rparr>"
  using assms
  by (auto simp: upload_image_def save_meal_def makedirs_def Let_def split: option.splits)

text \<open>
  C7. The id assigned to an upload is one plus the greatest id among the stored records:
  \<open>1\<close> when there is no record (also when the record store does not exist yet), and
  one plus the maximum of the ids otherwise, where a record without the key \<open>id\<close>
  counts as \<open>0\<close>. Any reordering of the stored records gives the same id. The new
  record is stored under that id and the response names it.
\<close>

theorem new_id_max_plus_one:
  "new_id [] = 1
   \<and> (meals_data \<noteq> [] \<longrightarrow>
        new_id meals_data
          = Max ((\<lambda>m. case meal_id m of None \<Rightarrow> 0 | Some i \<Rightarrow> i) ` set meals_data) + 1)
   \<and> (meals_data \<noteq> [] \<and> (\<forall>m\<in>set meals_data. meal_id m \<noteq> None) \<longrightarrow>
        new_id meals_data = Max {i. \<exists>m\<in>set meals_data. meal_id m = Some i} + 1)
   \<and> (mset meals_data = mset meals_data' \<longrightarrow> new_id meals_data = new_id meals_data')
   \<and> (has_allowed_extension (filename upload) \<and> tmp_write env = TmpOk
        \<and> image_verify env (contents upload) = None
        \<and> (meals_json fs = Meals meals_data \<or> meals_json fs = Absent \<and> meals_data = [])
        \<and> move_error env = None \<and> dump env = DumpOk \<longrightarrow>
        (\<exists>new_meals path.
           meals_json (snd (upload_image env upload description fs))
             = Meals (meals_data @ [new_meals])
           \<and> meal_id new_meals = Some (new_id meals_data)
           \<and> fst (upload_image env upload description fs)
               = Inr \<lparr>status = ''success'',
                      detail = ''Meal image uploaded and analyzed successfully. ID: ''
                               @ str_int (new_id meals_data),
                      document_path = Some path\<rparr>))"
proof (intro conjI impI)
  show "new_id [] = 1" by (simp add: new_id_def)
  have g: "get_id = (\<lambda>m. case meal_id m of None \<Rightarrow> 0 | Some i \<Rightarrow> i)"
    by (intro ext) (simp add: get_id_def)
  show "new_id meals_data
          = Max ((\<lambda>m. case meal_id m of None \<Rightarrow> 0 | Some i \<Rightarrow> i) ` set meals_data) + 1"
    if "meals_data \<noteq> []"
    using new_id_Max [OF that] unfolding g .
  show "new_id meals_data = Max {i. \<exists>m\<in>set meals_data. meal_id m = Some i} + 1"
    if "meals_data \<noteq> [] \<and> (\<forall>m\<in>set meals_data. meal_id m \<noteq> None)"
    using that by (simp add: new_id_Max get_id_image)
  show "\<exists>new_meals path.
           meals_json (snd (upload_image env upload description fs))
             = Meals (meals_data @ [new_meals])
           \<and> meal_id new_meals = Some (new_id meals_data)
           \<and> fst (upload_image env upload description fs)
               = Inr \<lparr>status = ''success'',
                      detail = ''Meal image uploaded and analyzed successfully. ID: ''
                               @ str_int (new_id meals_data),
                      document_path = Some path\<rparr>"
    if "has_allowed_extension (filename upload) \<and> tmp_write env = TmpOk
        \<and> image_verify env (contents upload) = None
        \<and> (meals_json fs = Meals meals_data \<or> meals_json fs = Absent \<and> meals_data = [])
        \<and> move_error env = None \<and> dump env = DumpOk"
    using that by (intro upload_image_stores) simp_all
  assume p: "mset meals_data = mset meals_data'"
  then have s: "set meals_data = set meals_data'" by (rule mset_eq_setD)
  show "new_id meals_data = new_id meals_data'"
  proof (cases "meals_data = []")
    case True
    with p show ?thesis by simp
  next
    case False
    with p have "meals_data' \<noteq> []" by auto
    with False s show ?thesis by (simp add: new_id_Max)
  qed
qed

theorem new_id_max_plus_one_witness:
  "new_id [rec_with_id (Some 3), rec_with_id (Some 7), rec_with_id (Some 2)] = 8
   \<and> new_id [rec_with_id (Some 2), rec_with_id (Some 3), rec_with_id (Some 7)] = 8
   \<and> new_id [rec_with_id (Some 100)] = 101
   \<and> (\<exists>new_meals path.
         meals_json (snd (upload_image env0 \<lparr>filename = ''photo.jpg'', contents = ''JPEGDATA''\<rparr>
                            ''lunch'' fs0))
           = Meals ([rec_with_id (Some 3), rec_with_id (Some 7), rec_with_id (Some 2)]
                    @ [new_meals])
         \<and> meal_id new_meals = Some 8
         \<and> fst (upload_image env0 \<lparr>filename = ''photo.jpg'', contents = ''JPEGDATA''\<rparr>
                  ''lunch'' fs0)
             = Inr \<lparr>status = ''success'',
                    detail = ''Meal image uploaded and analyzed successfully. ID: 8'',
                    document_path = Some path\<rparr>)"
proof -
  let ?a = "[rec_with_id (Some 3), rec_with_id (Some 7), rec_with_id (Some 2)]"
  let ?b = "[rec_with_id (Some 2), rec_with_id (Some 3), rec_with_id (Some 7)]"
  let ?c = "[rec_with_id (Some 100)]"
  let ?file = "\<lparr>filename = ''photo.jpg'', contents = ''JPEGDATA''\<rparr>"
  have p: "mset ?a = mset ?b" by (simp add: add.commute)
  have ne: "?a \<noteq> []" "?c \<noteq> []" by simp_all
  have i: "\<forall>m\<in>set ?a. meal_id m \<noteq> None" "\<forall>m\<in>set ?c. meal_id m \<noteq> None"
    by (simp_all add: rec_with_id_def)
  have "{i. \<exists>m\<in>set ?a. meal_id m = Some i} = {3, 7, 2}"
    by (auto simp: rec_with_id_def)
  then have m: "Max {i. \<exists>m\<in>set ?a. meal_id m = Some i} = 7" by simp
  have "{i. \<exists>m\<in>set ?c. meal_id m = Some i} = {100}"
    by (auto simp: rec_with_id_def)
  then have m': "Max {i. \<exists>m\<in>set ?c. meal_id m = Some i} = 100" by simp
  have l: "lower ''photo.jpg'' = ''photo.jpg''" by code_simp
  have e: "has_allowed_extension (filename ?file)"
    by (simp add: has_allowed_extension_def allowed_extensions_def endswith_def l)
  have f: "tmp_write env0 = TmpOk" "image_verify env0 (contents ?file) = None"
    "meals_json fs0 = Meals ?a" "move_error env0 = None" "dump env0 = DumpOk"
    by (simp_all add: env0_def fs0_def)
  have s: "str_int 8 = ''8''" by (simp add: str_int_def digit_def)
  note t = new_id_max_plus_one
         [where meals_data = ?a and meals_data' = ?b and upload = ?file and env = env0
            and fs = fs0 and description = "''lunch''"]
  from t ne(1) i(1) m have 1: "new_id ?a = 8" by simp
  from t p 1 have 1: "new_id ?a = 8" "new_id ?b = 8" by simp_all
  from t e f
  have 2: "\<exists>new_meals path.
           meals_json (snd (upload_image env0 ?file ''lunch'' fs0)) = Meals (?a @ [new_meals])
           \<and> meal_id new_meals = Some (new_id ?a)
           \<and> fst (upload_image env0 ?file ''lunch'' fs0)
               = Inr \<lparr>status = ''success'',
                      detail = ''Meal image uploaded and analyzed successfully. ID: ''
                               @ str_int (new_id ?a),
                      document_path = Some path\<rparr>"
    by blast
  from new_id_max_plus_one
         [where meals_data = ?c and meals_data' = ?c and upload = ?file and env = env0
            and fs = fs0 and description = "''lunch''"]
       ne(2) i(2) m'
  have 3: "new_id ?c = 101" by simp
  from 1 2 3 s show ?thesis by simp
qed

section \<open>The web-search tool never raises\<close>





section \<open>Uploads that are rejected leave no trace\<close>

text \<open>
  C8. An upload whose file name has no image extension, or whose bytes the image check
  refuses, is rejected with an HTTP error, and the content directory and the record
  store are as they were before the request. A file name without an image extension is
  rejected with status 400 before anything at all is written.
\<close>

theorem upload_image_rejects_before_persistence:
  "\<not> has_allowed_extension (filename file) \<or> image_verify env (contents file) \<noteq> None \<Longrightarrow>
     (\<exists>code d. fst (upload_image env file description fs) = Inl (HTTPException code d))
     \<and> uploads_dir (snd (upload_image env file description fs)) = uploads_dir fs
     \<and> meals_json (snd (upload_image env file description fs)) = meals_json fs
     \<and> (\<not> has_allowed_extension (filename file) \<longrightarrow>
          upload_image env file description fs =
            (Inl (HTTPException 400 ''Only PNG, JPG, and JPEG images are accepted.''), fs))"
  by (auto simp: upload_image_def Let_def split: tmp_outcome.splits option.splits)

theorem upload_image_rejects_before_persistence_witness:
  "upload_image env0 \<lparr>filename = ''photo.txt'', contents = ''JPEGDATA''\<rparr> ''lunch'' fs0
     = (Inl (HTTPException 400 ''Only PNG, JPG, and JPEG images are accepted.''), fs0)
   \<and> fst (upload_image env0 \<lparr>filename = ''photo.JPG'', contents = ''garbage''\<rparr> ''lunch'' fs0)
     = Inl (HTTPException 400 ''Invalid image file: cannot identify image file'')
   \<and> uploads_dir (snd (upload_image env0 \<lparr>filename = ''photo.JPG'', contents = ''garbage''\<rparr>
        ''lunch'' fs0)) = None
   \<and> meals_json (snd (upload_image env0 \<lparr>filename = ''photo.JPG'', contents = ''garbage''\<rparr>
        ''lunch'' fs0)) = meals_json fs0"
proof -
  have l: "lower ''photo.txt'' = ''photo.txt''" "lower ''photo.JPG'' = ''photo.jpg''"
    by code_simp+
  have a: "\<not> has_allowed_extension (filename \<lparr>filename = ''photo.txt'', contents = ''JPEGDATA''\<rparr>)"
    by (simp add: has_allowed_extension_def allowed_extensions_def endswith_def l)
  have b: "has_allowed_extension ''photo.JPG''"
    by (simp add: has_allowed_extension_def allowed_extensions_def endswith_def l)
  have c: "image_verify env0 (contents \<lparr>filename = ''photo.JPG'', contents = ''garbage''\<rparr>) \<noteq> None"
    by (simp add: env0_def)
  have d: "fst (upload_image env0 \<lparr>filename = ''photo.JPG'', contents = ''garbage''\<rparr> ''lunch'' fs0)
     = Inl (HTTPException 400 ''Invalid image file: cannot identify image file'')"
    using b by (simp add: upload_image_def env0_def)
  from upload_image_rejects_before_persistence
         [of "\<lparr>filename = ''photo.txt'', contents = ''JPEGDATA''\<rparr>" env0 "''lunch''" fs0]
       upload_image_rejects_before_persistence
         [of "\<lparr>filename = ''photo.JPG'', contents = ''garbage''\<rparr>" env0 "''lunch''" fs0]
       a c d
  show ?thesis by (simp add: fs0_def)
qed

section \<open>A failed analysis does not fail the upload\<close>

lemma upload_image_response_analysis:
  "fst (upload_image (env\<lparr>analyze_meal_image := a\<rparr>) file description fs)
     = fst (upload_image (env\<lparr>analyze_meal_image := a'\<rparr>) file description fs)"
  by (simp add: upload_image_def save_meal_def Let_def
        split: tmp_outcome.splits option.splits json_file.splits dump_outcome.splits)

lemma upload_image_analysis_error:
  assumes "has_allowed_extension (filename file)"
    and "tmp_write env = TmpOk"
    and "image_verify env (contents file) = None"
    and "meals_json fs = Meals ms \<or> meals_json fs = Absent \<and> ms = []"
    and "move_error env = None"
    and "dump env = DumpOk"
    and "final = ''uploads/meals/'' @ ''meals_'' @ str_int (new_id ms) @ ''_''
                   @ strftime_now env @ splitext_ext env (filename file)"
    and "analyze_meal_image env final
           (if description \<noteq> [] then description @ '' with this image''
            else ''Analyze this meal image'') = Inl e"
  shows "fst (upload_image env file description fs) =
           Inr \<lparr>status = ''success'',
                detail = ''Meal image uploaded and analyzed successfully. ID: ''
                         @ str_int (new_id ms),
                document_path = Some final\<rparr>
         \<and> meals_json (snd (upload_image env file description fs)) =
             Meals (ms @ [\<lparr>meal_id = Some (new_id ms), meal_name = filename file,
                            meal_description = (if description \<noteq> [] then description
                                                else ''No description provided''),
                            image_path = final, upload_date = isoformat_now env,
                            meal_user_id = env_user_id env,
                            analysis_response = AnalysisError (exn_str e)\<rparr>])
         \<and> (\<exists>d. uploads_dir (snd (upload_image env file description fs)) = Some d
                  \<and> d final = Some (contents file))"
proof (cases "description = []")
  case True
  from assms(4) show ?thesis
  proof
    assume "meals_json fs = Meals ms"
    with assms True show ?thesis
      by (simp add: upload_image_def save_meal_def makedirs_def dir_files_def Let_def
            split: option.splits)
  next
    assume "meals_json fs = Absent \<and> ms = []"
    with assms True show ?thesis
      by (simp add: upload_image_def save_meal_def makedirs_def dir_files_def Let_def
            split: option.splits)
  qed
next
  case False
  from assms(4) show ?thesis
  proof
    assume "meals_json fs = Meals ms"
    with assms False show ?thesis
      by (simp add: upload_image_def save_meal_def makedirs_def dir_files_def Let_def
            split: option.splits)
  next
    assume "meals_json fs = Absent \<and> ms = []"
    with assms False show ?thesis
      by (simp add: upload_image_def save_meal_def makedirs_def dir_files_def Let_def
            split: option.splits)
  qed
qed

text \<open>
  C10. The response of the upload endpoint does not depend on what the vision analysis
  does: with any two analyses, raising or not, the endpoint gives the same response.
  When the image is valid and storing it works (the record store holds the records
  \<open>ms\<close>, or does not exist yet, which is the first upload), a vision analysis that
  raises does not fail the upload: the response is the success response with the assigned
  id and the stored path, the image is in the content directory under that path, and the
  record appended to the store carries the error text in its analysis field.
\<close>

theorem upload_image_analysis_failure_is_data:
  "fst (upload_image (env\<lparr>analyze_meal_image := a\<rparr>) upload description fs)
     = fst (upload_image (env\<lparr>analyze_meal_image := a'\<rparr>) upload description fs)
   \<and> (has_allowed_extension (filename upload) \<and> tmp_write env = TmpOk
        \<and> image_verify env (contents upload) = None
        \<and> (meals_json fs = Meals ms \<or> meals_json fs = Absent \<and> ms = [])
        \<and> move_error env = None \<and> dump env = DumpOk
        \<and> final = ''uploads/meals/'' @ ''meals_'' @ str_int (new_id ms) @ ''_''
                    @ strftime_now env @ splitext_ext env (filename upload)
        \<and> analyze_meal_image env final
             (if description \<noteq> [] then description @ '' with this image''
              else ''Analyze this meal image'') = Inl e \<longrightarrow>
        fst (upload_image env upload description fs) =
           Inr \<lparr>status = ''success'',
                detail = ''Meal image uploaded and analyzed successfully. ID: ''
                         @ str_int (new_id ms),
                document_path = Some final\<rparr>
         \<and> meals_json (snd (upload_image env upload description fs)) =
             Meals (ms @ [\<lparr>meal_id = Some (new_id ms), meal_name = filename upload,
                            meal_description = (if description \<noteq> [] then description
                                                else ''No description provided''),
                            image_path = final, upload_date = isoformat_now env,
                            meal_user_id = env_user_id env,
                            analysis_response = AnalysisError (exn_str e)\<rparr>])
         \<and> (\<exists>d. uploads_dir (snd (upload_image env upload description fs)) = Some d
                  \<and> d final = Some (contents upload)))"
proof (rule conjI)
  show "fst (upload_image (env\<lparr>analyze_meal_image := a\<rparr>) upload description fs)
     = fst (upload_image (env\<lparr>analyze_meal_image := a'\<rparr>) upload description fs)"
    by (rule upload_image_response_analysis)
next
  show "has_allowed_extension (filename upload) \<and> tmp_write env = TmpOk
        \<and> image_verify env (contents upload) = None
        \<and> (meals_json fs = Meals ms \<or> meals_json fs = Absent \<and> ms = [])
        \<and> move_error env = None \<and> dump env = DumpOk
        \<and> final = ''uploads/meals/'' @ ''meals_'' @ str_int (new_id ms) @ ''_''
                    @ strftime_now env @ splitext_ext env (filename upload)
        \<and> analyze_meal_image env final
             (if description \<noteq> [] then description @ '' with this image''
              else ''Analyze this meal image'') = Inl e \<longrightarrow>
        fst (upload_image env upload description fs) =
           Inr \<lparr>status = ''success'',
                detail = ''Meal image uploaded and analyzed successfully. ID: ''
                         @ str_int (new_id ms),
                document_path = Some final\<rparr>
         \<and> meals_json (snd (upload_image env upload description fs)) =
             Meals (ms @ [\<lparr>meal_id = Some (new_id ms), meal_name = filename upload,
                            meal_description = (if description \<noteq> [] then description
                                                else ''No description provided''),
                            image_path = final, upload_date = isoformat_now env,
                            meal_user_id = env_user_id env,
                            analysis_response = AnalysisError (exn_str e)\<rparr>])
         \<and> (\<exists>d. uploads_dir (snd (upload_image env upload description fs)) = Some d
                  \<and> d final = Some (contents upload))"
  proof
    assume h: "has_allowed_extension (filename upload) \<and> tmp_write env = TmpOk
        \<and> image_verify env (contents upload) = None
        \<and> (meals_json fs = Meals ms \<or> meals_json fs = Absent \<and> ms = [])
        \<and> move_error env = None \<and> dump env = DumpOk
        \<and> final = ''uploads/meals/'' @ ''meals_'' @ str_int (new_id ms) @ ''_''
                    @ strftime_now env @ splitext_ext env (filename upload)
        \<and> analyze_meal_image env final
             (if description \<noteq> [] then description @ '' with this image''
              else ''Analyze this meal image'') = Inl e"
    show "fst (upload_image env upload description fs) =
           Inr \<lparr>status = ''success'',
                detail = ''Meal image uploaded and analyzed successfully. ID: ''
                         @ str_int (new_id ms),
                document_path = Some final\<rparr>
         \<and> meals_json (snd (upload_image env upload description fs)) =
             Meals (ms @ [\<lparr>meal_id = Some (new_id ms), meal_name = filename upload,
                            meal_description = (if description \<noteq> [] then description
                                                else ''No description provided''),
                            image_path = final, upload_date = isoformat_now env,
                            meal_user_id = env_user_id env,
                            analysis_response = AnalysisError (exn_str e)\<rparr>])
         \<and> (\<exists>d. uploads_dir (snd (upload_image env upload description fs)) = Some d
                  \<and> d final = Some (contents upload))"
      using h by (elim conjE) (rule upload_image_analysis_error; assumption)
  qed
qed

theorem upload_image_analysis_failure_is_data_witness:
  "fst (upload_image env0 \<lparr>filename = ''photo.jpg'', contents = ''JPEGDATA''\<rparr> ''lunch'' fs0) =
     Inr \<lparr>status = ''success'',
          detail = ''Meal image uploaded and analyzed successfully. ID: 8'',
          document_path = Some ''uploads/meals/meals_8_20240101_120000.jpg''\<rparr>
   \<and> meals_json (snd (upload_image env0 \<lparr>filename = ''photo.jpg'', contents = ''JPEGDATA''\<rparr>
        ''lunch'' fs0)) =
     Meals [rec_with_id (Some 3), rec_with_id (Some 7), rec_with_id (Some 2),
            \<lparr>meal_id = Some 8, meal_name = ''photo.jpg'', meal_description = ''lunch'',
             image_path = ''uploads/meals/meals_8_20240101_120000.jpg'',
             upload_date = ''2024-01-01T12:00:00'', meal_user_id = ''user_0'',
             analysis_response = AnalysisError ''vision unavailable''\<rparr>]
   \<and> fst (upload_image env0 \<lparr>filename = ''photo.jpg'', contents = ''JPEGDATA''\<rparr> []
            (fs0\<lparr>meals_json := Absent\<rparr>)) =
     Inr \<lparr>status = ''success'',
          detail = ''Meal image uploaded and analyzed successfully. ID: 1'',
          document_path = Some ''uploads/meals/meals_1_20240101_120000.jpg''\<rparr>
   \<and> meals_json (snd (upload_image env0 \<lparr>filename = ''photo.jpg'', contents = ''JPEGDATA''\<rparr>
        [] (fs0\<lparr>meals_json := Absent\<rparr>))) =
     Meals [\<lparr>meal_id = Some 1, meal_name = ''photo.jpg'',
             meal_description = ''No description provided'',
             image_path = ''uploads/meals/meals_1_20240101_120000.jpg'',
             upload_date = ''2024-01-01T12:00:00'', meal_user_id = ''user_0'',
             analysis_response = AnalysisError ''vision unavailable''\<rparr>]"
proof -
  let ?file = "\<lparr>filename = ''photo.jpg'', contents = ''JPEGDATA''\<rparr>"
  let ?ms = "[rec_with_id (Some 3), rec_with_id (Some 7), rec_with_id (Some 2)]"
  have l: "lower ''photo.jpg'' = ''photo.jpg''"
    by (simp add: lower_def lower_char_def)
  have a: "has_allowed_extension (filename ?file)"
    by (simp add: has_allowed_extension_def allowed_extensions_def endswith_def l)
  have n: "new_id ?ms = 8" "new_id [] = 1"
    by (simp_all add: new_id_def get_id_def rec_with_id_def)
  have s: "str_int 8 = ''8''" "str_int 1 = ''1''"
    by (simp_all add: str_int_def digit_def)
  from upload_image_analysis_failure_is_data
         [where upload = ?file and env = env0 and fs = fs0 and ms = ?ms
            and final = "''uploads/meals/'' @ ''meals_'' @ str_int (new_id ?ms) @ ''_''
                @ strftime_now env0 @ splitext_ext env0 (filename ?file)"
            and description = "''lunch''" and e = "OtherException ''vision unavailable''"]
       a n s
  have 1: "fst (upload_image env0 ?file ''lunch'' fs0) =
     Inr \<lparr>status = ''success'',
          detail = ''Meal image uploaded and analyzed successfully. ID: 8'',
          document_path = Some ''uploads/meals/meals_8_20240101_120000.jpg''\<rparr>
   \<and> meals_json (snd (upload_image env0 ?file ''lunch'' fs0)) =
     Meals [rec_with_id (Some 3), rec_with_id (Some 7), rec_with_id (Some 2),
            \<lparr>meal_id = Some 8, meal_name = ''photo.jpg'', meal_description = ''lunch'',
             image_path = ''uploads/meals/meals_8_20240101_120000.jpg'',
             upload_date = ''2024-01-01T12:00:00'', meal_user_id = ''user_0'',
             analysis_response = AnalysisError ''vision unavailable''\<rparr>]"
    by (simp add: env0_def fs0_def)
  from upload_image_analysis_failure_is_data
         [where upload = ?file and env = env0 and fs = "fs0\<lparr>meals_json := Absent\<rparr>"
            and ms = "[]"
            and final = "''uploads/meals/'' @ ''meals_'' @ str_int (new_id []) @ ''_''
                @ strftime_now env0 @ splitext_ext env0 (filename ?file)"
            and description = "[]" and e = "OtherException ''vision unavailable''"]
       a n s
  have 2: "fst (upload_image env0 ?file [] (fs0\<lparr>meals_json := Absent\<rparr>)) =
     Inr \<lparr>status = ''success'',
          detail = ''Meal image uploaded and analyzed successfully. ID: 1'',
          document_path = Some ''uploads/meals/meals_1_20240101_120000.jpg''\<rparr>
   \<and> meals_json (snd (upload_image env0 ?file [] (fs0\<lparr>meals_json := Absent\<rparr>))) =
     Meals [\<lparr>meal_id = Some 1, meal_name = ''photo.jpg'',
             meal_description = ''No description provided'',
             image_path = ''uploads/meals/meals_1_20240101_120000.jpg'',
             upload_date = ''2024-01-01T12:00:00'', meal_user_id = ''user_0'',
             analysis_response = AnalysisError ''vision unavailable''\<rparr>]"
    by (simp add: env0_def fs0_def)
  from 1 2 show ?thesis by simp
qed

section \<open>The reducer and the run of the graph: auxiliary facts\<close>

lemma assign_ids_all_Some:
  "\<forall>m\<in>set ms. msg_id m \<noteq> None \<Longrightarrow> assign_ids uuid n ms = (ms, n)"
  by (induction ms) auto

lemma index_of_id_None:
  "(index_of_id k ms = None) = (k \<notin> msg_id ` set ms)"
  by (induction ms) (auto split: option.splits)

lemma index_of_id_Some:
  "index_of_id k ms = Some i \<Longrightarrow> i < length ms \<and> msg_id (ms ! i) = k"
  by (induction ms arbitrary: i) (auto split: option.splits if_splits)

lemma index_of_id_distinct:
  "distinct (map msg_id ms) \<Longrightarrow> i < length ms \<Longrightarrow> index_of_id (msg_id (ms ! i)) ms = Some i"
proof (induction ms arbitrary: i)
  case Nil
  then show ?case by simp
next
  case (Cons m ms)
  show ?case
  proof (cases i)
    case 0
    from Cons.prems have "msg_id m \<notin> msg_id ` set ms" by simp
    then have "index_of_id (msg_id m) ms = None" by (simp add: index_of_id_None)
    with 0 show ?thesis by simp
  next
    case (Suc j)
    with Cons show ?thesis by simp
  qed
qed

lemma merge_messages_present:
  "distinct (map msg_id L) \<Longrightarrow> set ms \<subseteq> set L \<Longrightarrow> merge_messages L ms = L"
proof (induction ms)
  case Nil
  show ?case by simp
next
  case (Cons m ms)
  from Cons.prems obtain i where i: "i < length L" "L ! i = m"
    by (auto simp: in_set_conv_nth)
  with Cons.prems have "index_of_id (msg_id m) L = Some i"
    using index_of_id_distinct [of L i] by simp
  moreover have "L[i := m] = L" unfolding i(2) [symmetric] by simp
  ultimately show ?case using Cons by simp
qed

lemma merge_messages_append:
  "merge_messages L (xs @ ys) = merge_messages (merge_messages L xs) ys"
  by (induction xs arbitrary: L) (auto split: option.splits)

lemma merge_messages_fresh:
  "distinct (map msg_id ys) \<Longrightarrow> msg_id ` set ys \<inter> msg_id ` set L = {} \<Longrightarrow>
   merge_messages L ys = L @ ys"
proof (induction ys arbitrary: L)
  case Nil
  show ?case by simp
next
  case (Cons y ys)
  from Cons.prems have "index_of_id (msg_id y) L = None"
    by (auto simp: index_of_id_None)
  moreover from Cons.prems have "msg_id ` set ys \<inter> msg_id ` set (L @ [y]) = {}"
    by auto
  moreover from Cons.prems have "distinct (map msg_id ys)" by simp
  ultimately show ?case using Cons.IH [of "L @ [y]"] by simp
qed

lemma assign_ids_append:
  "assign_ids uuid n (xs @ ys) =
     (let (xs', n1) = assign_ids uuid n xs; (ys', n2) = assign_ids uuid n1 ys
      in (xs' @ ys', n2))"
  by (induction xs arbitrary: n) (auto split: option.splits prod.splits)

lemma assign_ids_single:
  "assign_ids uuid n [r] = ([with_id uuid n r], next_counter n r)"
  by (simp add: with_id_def next_counter_def split: option.splits)

lemma add_messages_extend:
  assumes "stored_ok st" and "set pre \<subseteq> set st"
    and "assign_ids uuid n new = (new', n')"
    and "distinct (map msg_id new')"
    and "msg_id ` set new' \<inter> msg_id ` set st = {}"
  shows "add_messages uuid n st (pre @ new) = (st @ new', n')"
proof -
  from assms(1) have a: "assign_ids uuid n st = (st, n)"
    by (simp add: stored_ok_def assign_ids_all_Some)
  from assms(1,2) have "\<forall>m\<in>set pre. msg_id m \<noteq> None"
    by (auto simp: stored_ok_def)
  then have b: "assign_ids uuid n pre = (pre, n)"
    by (rule assign_ids_all_Some)
  from assms(1) have d: "distinct (map msg_id st)" by (simp add: stored_ok_def)
  have "merge_messages st (pre @ new') = merge_messages st new'"
    by (simp add: merge_messages_append merge_messages_present [OF d assms(2)])
  also have "\<dots> = st @ new'"
    using assms(4,5) by (rule merge_messages_fresh)
  finally show ?thesis
    by (simp add: add_messages_def a b assign_ids_append assms(3))
qed

lemma agent_update:
  assumes "stored_ok st" and "msg_id (with_id uuid n r) \<notin> msg_id ` set st"
  shows "add_messages uuid n st (st @ [r]) = (st @ [with_id uuid n r], next_counter n r)"
  using add_messages_extend [OF assms(1) subset_refl assign_ids_single] assms(2) by simp







lemma inj_uuid_stub: "inj uuid_stub"
proof (rule injI)
  fix a b assume "uuid_stub a = uuid_stub b"
  then have "length (uuid_stub a) = length (uuid_stub b)" by simp
  then show "a = b" by (simp add: uuid_stub_def)
qed


lemma merge_messages_ids_prefix:
  "\<exists>extra. map msg_id (merge_messages L ms) = map msg_id L @ extra"
proof (induction ms arbitrary: L)
  case Nil
  show ?case by simp
next
  case (Cons m ms)
  show ?case
  proof (cases "index_of_id (msg_id m) L")
    case None
    from Cons [of "L @ [m]"] obtain extra where
      "map msg_id (merge_messages (L @ [m]) ms) = map msg_id (L @ [m]) @ extra" ..
    with None show ?thesis by simp
  next
    case (Some i)
    then have "i < length L" "msg_id (L ! i) = msg_id m"
      by (auto dest: index_of_id_Some)
    then have "map msg_id (L[i := m]) = map msg_id L"
      by (simp add: map_update list_update_same_conv)
    with Cons [of "L[i := m]"] Some show ?thesis by simp
  qed
qed

lemma upsert_distinct:
  assumes "distinct (map msg_id L)"
  shows "distinct (map msg_id (case index_of_id (msg_id m) L of
            Some i \<Rightarrow> L[i := m] | None \<Rightarrow> L @ [m]))"
proof (cases "index_of_id (msg_id m) L")
  case None
  then have "msg_id m \<notin> msg_id ` set L" by (simp add: index_of_id_None)
  with assms None show ?thesis by simp
next
  case (Some i)
  then have "i < length L" "msg_id (L ! i) = msg_id m"
    by (auto dest: index_of_id_Some)
  then have "map msg_id (L[i := m]) = map msg_id L"
    by (simp add: map_update list_update_same_conv)
  with assms Some show ?thesis by simp
qed

lemma merge_messages_step:
  "merge_messages L (m # ms) =
     merge_messages (case index_of_id (msg_id m) L of Some i \<Rightarrow> L[i := m] | None \<Rightarrow> L @ [m]) ms"
  by (simp split: option.splits)

lemma merge_messages_distinct:
  "distinct (map msg_id L) \<Longrightarrow> distinct (map msg_id (merge_messages L ms))"
proof (induction ms arbitrary: L)
  case Nil
  then show ?case by simp
next
  case (Cons m ms)
  from Cons.prems have "distinct (map msg_id (case index_of_id (msg_id m) L of
            Some i \<Rightarrow> L[i := m] | None \<Rightarrow> L @ [m]))"
    by (rule upsert_distinct)
  then show ?case unfolding merge_messages_step by (rule Cons.IH)
qed

lemma upsert_member:
  "m \<in> set (case index_of_id (msg_id m) L of Some i \<Rightarrow> L[i := m] | None \<Rightarrow> L @ [m])"
  by (auto split: option.splits dest!: index_of_id_Some intro: set_update_memI)

lemma upsert_keeps:
  assumes "x \<in> set L" and "msg_id x \<noteq> msg_id m"
  shows "x \<in> set (case index_of_id (msg_id m) L of Some i \<Rightarrow> L[i := m] | None \<Rightarrow> L @ [m])"
proof (cases "index_of_id (msg_id m) L")
  case None
  with assms show ?thesis by simp
next
  case (Some i)
  then have i: "i < length L" "msg_id (L ! i) = msg_id m"
    by (auto dest: index_of_id_Some)
  from assms(1) obtain j where j: "j < length L" "L ! j = x"
    by (auto simp: in_set_conv_nth)
  with i assms(2) have "j \<noteq> i" by auto
  with j have "L[i := m] ! j = x" "j < length (L[i := m])" by simp_all
  then have "x \<in> set (L[i := m])" by (metis nth_mem)
  with Some show ?thesis by simp
qed

lemma merge_messages_keeps:
  "x \<in> set L \<Longrightarrow> msg_id x \<notin> msg_id ` set ms \<Longrightarrow> x \<in> set (merge_messages L ms)"
proof (induction ms arbitrary: L)
  case Nil
  then show ?case by simp
next
  case (Cons m ms)
  from Cons.prems have "x \<in> set (case index_of_id (msg_id m) L of
            Some i \<Rightarrow> L[i := m] | None \<Rightarrow> L @ [m])"
    by (intro upsert_keeps) auto
  moreover from Cons.prems have "msg_id x \<notin> msg_id ` set ms" by simp
  ultimately show ?case unfolding merge_messages_step by (rule Cons.IH)
qed

lemma merge_messages_member:
  "distinct (map msg_id ms) \<Longrightarrow> x \<in> set ms \<Longrightarrow> x \<in> set (merge_messages L ms)"
proof (induction ms arbitrary: L)
  case Nil
  then show ?case by simp
next
  case (Cons m ms)
  let ?L' = "case index_of_id (msg_id m) L of Some i \<Rightarrow> L[i := m] | None \<Rightarrow> L @ [m]"
  show ?case
  proof (cases "x = m")
    case True
    have "m \<in> set ?L'" by (rule upsert_member)
    moreover from Cons.prems have "msg_id m \<notin> msg_id ` set ms" by simp
    ultimately have "m \<in> set (merge_messages ?L' ms)" by (rule merge_messages_keeps)
    with True show ?thesis unfolding merge_messages_step by simp
  next
    case False
    with Cons.prems have "distinct (map msg_id ms)" "x \<in> set ms" by simp_all
    then have "x \<in> set (merge_messages ?L' ms)" by (rule Cons.IH)
    then show ?thesis unfolding merge_messages_step .
  qed
qed

lemma merge_messages_ids_Some:
  "\<forall>m\<in>set L. msg_id m \<noteq> None \<Longrightarrow> \<forall>m\<in>set ms. msg_id m \<noteq> None \<Longrightarrow>
   \<forall>m\<in>set (merge_messages L ms). msg_id m \<noteq> None"
proof (induction ms arbitrary: L)
  case Nil
  then show ?case by simp
next
  case (Cons m ms)
  let ?L' = "case index_of_id (msg_id m) L of Some i \<Rightarrow> L[i := m] | None \<Rightarrow> L @ [m]"
  from Cons.prems have "\<forall>x\<in>set ?L'. msg_id x \<noteq> None"
    by (auto split: option.splits dest!: set_update_subset_insert [THEN subsetD])
  moreover from Cons.prems have "\<forall>m\<in>set ms. msg_id m \<noteq> None" by simp
  ultimately show ?case unfolding merge_messages_step by (rule Cons.IH)
qed

lemma merge_messages_idempotent:
  assumes "distinct (map msg_id L)" and "distinct (map msg_id ms)"
  shows "merge_messages (merge_messages L ms) ms = merge_messages L ms"
proof (rule merge_messages_present)
  show "distinct (map msg_id (merge_messages L ms))"
    using assms(1) by (rule merge_messages_distinct)
  show "set ms \<subseteq> set (merge_messages L ms)"
    using assms(2) by (auto intro: merge_messages_member)
qed

section \<open>Routing after a model call\<close>



section \<open>The loop has no iteration cap\<close>

lemma drawn_ids_hello0: "drawn_ids uuid_stub ([hello0], 1)"
  by (simp add: drawn_ids_def stored_ok_def hello0_def)







section \<open>The stored history under the reducer\<close>

lemma assign_ids_None:
  "\<forall>m\<in>set ms. msg_id m = None \<Longrightarrow>
   map msg_id (fst (assign_ids uuid n ms)) = map (\<lambda>k. Some (uuid k)) [n..<n + length ms]"
proof (induction ms arbitrary: n)
  case Nil
  show ?case by simp
next
  case (Cons m ms)
  from Cons.prems have "msg_id m = None" by simp
  then have a: "fst (assign_ids uuid n (m # ms))
                  = m\<lparr>msg_id := Some (uuid n)\<rparr> # fst (assign_ids uuid (Suc n) ms)"
    by (simp add: case_prod_beta)
  have "n < n + length (m # ms)" by simp
  then have "[n..<n + length (m # ms)] = n # [Suc n..<n + length (m # ms)]"
    by (rule upt_conv_Cons)
  then have b: "[n..<n + length (m # ms)] = n # [Suc n..<Suc n + length ms]" by simp
  from Cons.prems have "\<forall>m\<in>set ms. msg_id m = None" by simp
  then have "map msg_id (fst (assign_ids uuid (Suc n) ms))
               = map (\<lambda>k. Some (uuid k)) [Suc n..<Suc n + length ms]"
    by (rule Cons.IH)
  then show ?case unfolding a b by simp
qed

text \<open>
  C4, as stated, fails: appending the message \<open>hello\<close>, as the chat endpoint builds
  it (without id), to an empty history twice gives a history of two messages, not the
  history after one append.
\<close>

theorem replay_idempotent_counterexample:
  "fst (add_messages uuid_stub 1 (fst (add_messages uuid_stub 0 [] [HumanMessage ''hello'']))
          [HumanMessage ''hello''])
     \<noteq> fst (add_messages uuid_stub 0 [] [HumanMessage ''hello''])"
  by (simp add: add_messages_def HumanMessage_def uuid_stub_def)

text \<open>
  C4, amended. Every update of a stored history leaves the ids of the stored messages
  where they are, in order, and puts what is new after them; a stored message is
  overwritten only by an incoming message of the same id. Messages without ids and the
  answer the model node appends extend the history at its end. Replaying an append of
  messages that carry pairwise different ids leaves the history as it was after the first
  append.
\<close>

theorem reducer_append_only_replay:
  assumes "stored_ok st"
  shows "(\<exists>extra. map msg_id (fst (add_messages uuid n st ms)) = map msg_id st @ extra)
   \<and> (inj uuid \<and> drawn_ids uuid (st, n) \<and> (\<forall>m\<in>set ms. msg_id m = None) \<longrightarrow>
        fst (add_messages uuid n st ms) = st @ fst (assign_ids uuid n ms))
   \<and> (msg_id (with_id uuid n r) \<notin> msg_id ` set st \<longrightarrow>
        fst (add_messages uuid n st (st @ [r])) = st @ [with_id uuid n r])
   \<and> ((\<forall>m\<in>set ms. msg_id m \<noteq> None) \<and> distinct (map msg_id ms) \<longrightarrow>
        fst (add_messages uuid n' (fst (add_messages uuid n st ms)) ms)
          = fst (add_messages uuid n st ms))"
proof (intro conjI impI)
  from assms have a: "assign_ids uuid n st = (st, n)"
    by (simp add: stored_ok_def assign_ids_all_Some)
  from assms have d: "distinct (map msg_id st)" and i: "\<forall>m\<in>set st. msg_id m \<noteq> None"
    by (simp_all add: stored_ok_def)
  obtain ms' k where b: "assign_ids uuid n ms = (ms', k)" by (cases "assign_ids uuid n ms")
  have m: "fst (add_messages uuid n st ms) = merge_messages st ms'"
    by (simp add: add_messages_def a b)
  show "\<exists>extra. map msg_id (fst (add_messages uuid n st ms)) = map msg_id st @ extra"
    unfolding m by (rule merge_messages_ids_prefix)
  show "fst (add_messages uuid n st (st @ [r])) = st @ [with_id uuid n r]"
    if "msg_id (with_id uuid n r) \<notin> msg_id ` set st"
    using agent_update [OF assms that] by simp
  show "fst (add_messages uuid n st ms) = st @ fst (assign_ids uuid n ms)"
    if h: "inj uuid \<and> drawn_ids uuid (st, n) \<and> (\<forall>m\<in>set ms. msg_id m = None)"
  proof -
    from h have ids: "map msg_id ms' = map (\<lambda>k. Some (uuid k)) [n..<n + length ms]"
      using assign_ids_None [of ms uuid n] b by simp
    from h have inj: "inj uuid" by simp
    have "inj_on (\<lambda>k. Some (uuid k)) (set [n..<n + length ms])"
      using inj by (auto simp: inj_on_def dest: injD)
    then have "distinct (map (\<lambda>k. Some (uuid k)) [n..<n + length ms])"
      by (simp add: distinct_map)
    with ids have d': "distinct (map msg_id ms')" by simp
    have f: "msg_id ` set ms' \<inter> msg_id ` set st = {}"
    proof (rule ccontr)
      assume "msg_id ` set ms' \<inter> msg_id ` set st \<noteq> {}"
      then obtain x y where x: "x \<in> set ms'" "y \<in> set st" "msg_id x = msg_id y" by auto
      from x(1) have "msg_id x \<in> set (map msg_id ms')" by simp
      with ids obtain j where j: "n \<le> j" "msg_id x = Some (uuid j)" by auto
      from h x(2) obtain l where l: "l < n" "msg_id y = Some (uuid l)"
        by (auto simp: drawn_ids_def)
      from j l x(3) inj have "j = l" by (auto dest: injD)
      with j l show False by simp
    qed
    from add_messages_extend [OF assms _ b d' f, of "[]"] b show ?thesis by simp
  qed
  show "fst (add_messages uuid n' (fst (add_messages uuid n st ms)) ms)
          = fst (add_messages uuid n st ms)"
    if h: "(\<forall>m\<in>set ms. msg_id m \<noteq> None) \<and> distinct (map msg_id ms)"
  proof -
    from h have c: "assign_ids uuid k' ms = (ms, k')" for k'
      by (simp add: assign_ids_all_Some)
    from c [of n] b have ms': "ms' = ms" by simp
    from i h have "\<forall>m\<in>set (merge_messages st ms). msg_id m \<noteq> None"
      by (intro merge_messages_ids_Some) simp_all
    then have e: "assign_ids uuid n' (merge_messages st ms) = (merge_messages st ms, n')"
      by (rule assign_ids_all_Some)
    from d h have "merge_messages (merge_messages st ms) ms = merge_messages st ms"
      by (intro merge_messages_idempotent) simp_all
    moreover have "fst (add_messages uuid n' (merge_messages st ms) ms)
                     = merge_messages (merge_messages st ms) ms"
      by (simp add: add_messages_def e c)
    ultimately show ?thesis unfolding m ms' by simp
  qed
qed

theorem reducer_append_only_replay_witness:
  "fst (add_messages uuid_stub 1 [hello0] ([hello0] @ [AIMessage ''An apple has about 95 kcal.'']))
     = [hello0, answer1]
   \<and> fst (add_messages uuid_stub 2 (fst (add_messages uuid_stub 2 [hello0] [answer1])) [answer1])
     = fst (add_messages uuid_stub 2 [hello0] [answer1])
   \<and> fst (add_messages uuid_stub 1 [hello0] [HumanMessage ''hello''])
     = [hello0, (HumanMessage ''hello'')\<lparr>msg_id := Some (uuid_stub 1)\<rparr>]"
proof -
  have ok: "stored_ok [hello0]" by (simp add: stored_ok_def hello0_def)
  have a: "with_id uuid_stub 1 (AIMessage ''An apple has about 95 kcal.'') = answer1"
    by (simp add: with_id_def answer1_def AIMessage_def)
  have f: "msg_id answer1 \<notin> msg_id ` set [hello0]"
    by (simp add: answer1_def hello0_def uuid_stub_def)
  have i: "\<forall>m\<in>set [answer1]. msg_id m \<noteq> None" "distinct (map msg_id [answer1])"
    by (simp_all add: answer1_def)
  have n: "\<forall>m\<in>set [HumanMessage ''hello'']. msg_id m = None"
    by (simp add: HumanMessage_def)
  have g: "fst (assign_ids uuid_stub 1 [HumanMessage ''hello''])
             = [(HumanMessage ''hello'')\<lparr>msg_id := Some (uuid_stub 1)\<rparr>]"
    by (simp add: HumanMessage_def)
  from reducer_append_only_replay
         [where st = "[hello0]" and uuid = uuid_stub and n = 1 and n' = 2
            and r = "AIMessage ''An apple has about 95 kcal.''"
            and ms = "[HumanMessage ''hello'']", OF ok]
       reducer_append_only_replay
         [where st = "[hello0]" and uuid = uuid_stub and n = 2 and n' = 2
            and r = "AIMessage ''An apple has about 95 kcal.''" and ms = "[answer1]", OF ok]
       a f i n g inj_uuid_stub drawn_ids_hello0
  show ?thesis by simp
qed

section \<open>The chat endpoint always answers\<close>






section \<open>Which history a chat request works on\<close>









end
